theory Spec2Isabelle
  imports Main
begin

section \<open>The request builder (class \<open>ApiCall\<close>)\<close>

subsection \<open>Values\<close>

text \<open>
  JSON data as it travels in request and response bodies. Numbers are the integers
  the programs use (status codes, ages, counts, milliseconds).
\<close>

datatype json =
    JNull
  | JBool bool
  | JNum int
  | JStr string
  | JArr "json list"
  | JObj "(string \<times> json) list"

text \<open>
  The response object of the HTTP client, with the properties \<open>ApiCall\<close> reads:
  \<open>text\<close>, \<open>body\<close>, \<open>headers\<close>, \<open>type\<close>, \<open>statusCode\<close>, the four classification
  flags, \<open>xhr\<close> (absent outside a browser) and the method \<open>get\<close>.
\<close>

record response =
  statusCode :: int
  headers :: "(string \<times> string) list"
  body :: json
  rtext :: string
  rtype :: string
  clientError :: bool
  serverError :: bool
  ok :: bool
  unauthorized :: bool
  xhr :: "json option"
  rget :: "string \<Rightarrow> string option"

text \<open>
  What the private field \<open>res\<close> can hold at run time. It is declared
  \<open>Response | undefined\<close>, but \<open>done\<close> stores whatever its handlers return (their
  result type is \<open>any\<close>): \<open>undefined\<close>, a response, or plain data.
\<close>

datatype jsvalue = Undefined | Resp response | Plain json

text \<open>The truth value JavaScript gives a value in \<open>if (this.res)\<close>.\<close>

fun truthy :: "jsvalue \<Rightarrow> bool" where
  "truthy Undefined = False"
| "truthy (Resp r) = True"
| "truthy (Plain JNull) = False"
| "truthy (Plain (JBool b)) = b"
| "truthy (Plain (JNum n)) = (n \<noteq> 0)"
| "truthy (Plain (JStr s)) = (s \<noteq> [])"
| "truthy (Plain (JArr xs)) = True"
| "truthy (Plain (JObj kvs)) = True"

text \<open>
  Reading a property \<open>v.p\<close> of a truthy value, for the property names \<open>ApiCall\<close>
  reads. A response has them all; a plain object has the ones it holds; a number,
  a string, a boolean and an array have none of them.
\<close>

definition opt_value :: "json option \<Rightarrow> jsvalue" where
  "opt_value x = (case x of None \<Rightarrow> Undefined | Some v \<Rightarrow> Plain v)"

fun get_prop :: "jsvalue \<Rightarrow> string \<Rightarrow> jsvalue" where
  "get_prop (Resp r) p =
     (if p = ''text'' then Plain (JStr (rtext r))
      else if p = ''body'' then Plain (body r)
      else if p = ''headers'' then Plain (JObj (map (\<lambda>(k, v). (k, JStr v)) (headers r)))
      else if p = ''type'' then Plain (JStr (rtype r))
      else if p = ''statusCode'' then Plain (JNum (statusCode r))
      else if p = ''clientError'' then Plain (JBool (clientError r))
      else if p = ''serverError'' then Plain (JBool (serverError r))
      else if p = ''ok'' then Plain (JBool (ok r))
      else if p = ''unauthorized'' then Plain (JBool (unauthorized r))
      else if p = ''xhr'' then opt_value (xhr r)
      else Undefined)"
| "get_prop (Plain (JObj kvs)) p = opt_value (map_of kvs p)"
| "get_prop v p = Undefined"

subsection \<open>Errors\<close>

text \<open>
  \<open>InvalidMethod\<close> is \<open>Error('Invalid HTTP method provided.')\<close>, \<open>ResponseUndefined\<close> is
  \<open>Error('Response is undefined. Make sure to call the API call method first.')\<close>,
  \<open>TypeError\<close> is JavaScript's own error for calling something that is not a function.
  The other three come from outside the class: a failed expectation (with what was
  expected and what was found), a failure of the transport, and an error thrown by a
  handler.
\<close>

datatype mismatch =
    StatusMismatch int int
  | BodyMismatch json json
  | HeaderMismatch string string "string option"
  | CheckFailed string

datatype error =
    InvalidMethod
  | ResponseUndefined
  | TypeError
  | ExpectationMismatch mismatch
  | TransportError string
  | Thrown string

subsection \<open>The wrapped request\<close>

text \<open>
  A callback handed to the HTTP client is kept by name: the client, not \<open>ApiCall\<close>,
  runs it. The one exception is the checker of \<open>expectResponse\<close>, kept as a function
  from the response to the message of the error it raises, if any.
\<close>

datatype callback = Callback string

datatype multipart_value =
    MString string
  | MNumber int
  | MBoolean bool
  | MBinary "nat list"

datatype field_value = Single multipart_value | Many "multipart_value list"

datatype attach_options =
    FileName string
  | FileInfo "string option" "string option"

datatype timeout_arg = Millis int | Deadlines "int option" "int option"

datatype plugin = ApiLogger bool bool | PluginFn callback

text \<open>
  The calls \<open>ApiCall\<close> makes on the wrapped request, one constructor for each method of
  the HTTP client it uses and each shape of argument it passes.
\<close>

datatype lib_call =
    Set_all "(string \<times> string) list"
  | Set_one string string
  | Unset string
  | Type string
  | Query_obj "(string \<times> string) list"
  | Query_str string
  | Send json
  | Send_form "(string \<times> string) list"
  | Attach string multipart_value "attach_options option"
  | Once string callback
  | On string callback
  | Connect_ip string
  | Connect_map "(string \<times> string) list"
  | TrustLocalhost bool
  | Ok callback
  | Field string field_value
  | DisableTLSCerts
  | Ca string
  | Abort
  | Use plugin
  | Key string
  | Cert string
  | Auth_token string string
  | Auth_user string string string
  | Serialize callback
  | Parse callback
  | Retry int "callback option"
  | Redirects int
  | Timeout timeout_arg
  | ClearTimeout
  | Http2 bool
  | Buffer bool
  | Expect_status int
  | Expect_fn "response \<Rightarrow> string option"
  | Expect_body json
  | Expect_field string string
  | End "callback option"

text \<open>
  The request object \<open>req\<close>: the verb and address it was created for and the calls made
  on it so far, oldest first.
\<close>

record test_req =
  verb :: string
  url :: string
  calls :: "lib_call list"

definition call :: "lib_call \<Rightarrow> test_req \<Rightarrow> test_req" where
  "call c t = t\<lparr>calls := calls t @ [c]\<rparr>"

text \<open>\<open>supertest.agent(endpoint)\<close> and its request factories \<open>agent.get('')\<close>, ...\<close>

definition agent_request :: "string \<Rightarrow> string \<Rightarrow> string \<Rightarrow> test_req" where
  "agent_request v endpoint path = \<lparr>verb = v, url = endpoint @ path, calls = []\<rparr>"

subsection \<open>Construction\<close>

text \<open>The enumeration \<open>ApiMethods\<close>: eight members, each the string of its own name.\<close>

definition ApiMethods :: "string list" where
  "ApiMethods =
     [''GET'', ''POST'', ''PATCH'', ''PUT'', ''DELETE'', ''HEAD'', ''OPTIONS'', ''TRACE'']"

record ApiCall =
  endpoint :: string
  req :: test_req
  res :: jsvalue

text \<open>
  \<open>getTest\<close>: the \<open>switch\<close> of the source, label by label and in its order. The third
  label is \<open>ApiMethods.POST\<close> again, in front of the \<open>patch\<close> factory.
\<close>

definition getTest :: "string \<Rightarrow> string \<Rightarrow> error + test_req" where
  "getTest agent method =
     (if method = ''GET'' then Inr (agent_request ''GET'' agent [])
      else if method = ''POST'' then Inr (agent_request ''POST'' agent [])
      else if method = ''POST'' then Inr (agent_request ''PATCH'' agent [])
      else if method = ''PUT'' then Inr (agent_request ''PUT'' agent [])
      else if method = ''DELETE'' then Inr (agent_request ''DELETE'' agent [])
      else if method = ''HEAD'' then Inr (agent_request ''HEAD'' agent [])
      else if method = ''OPTIONS'' then Inr (agent_request ''OPTIONS'' agent [])
      else if method = ''TRACE'' then Inr (agent_request ''TRACE'' agent [])
      else Inl InvalidMethod)"

text \<open>The constructor: \<open>res\<close> starts \<open>undefined\<close>; a throw of \<open>getTest\<close> is its own.\<close>

definition new_ApiCall :: "string \<Rightarrow> string \<Rightarrow> error + ApiCall" where
  "new_ApiCall ep method =
     (case getTest ep method of
        Inl e \<Rightarrow> Inl e
      | Inr t \<Rightarrow> Inr \<lparr>endpoint = ep, req = t, res = Undefined\<rparr>)"

subsection \<open>Configuration and expectation methods\<close>

text \<open>
  Every one of them has the body \<open>this.req.m(args); return this;\<close>: one call on the
  wrapped request, and the object itself, updated, as the result.
\<close>

definition on_req :: "lib_call \<Rightarrow> ApiCall \<Rightarrow> ApiCall" where
  "on_req c f = f\<lparr>req := call c (req f)\<rparr>"

text \<open>A parameter with a default value: an omitted argument takes the default.\<close>

definition or_default :: "'a \<Rightarrow> 'a option \<Rightarrow> 'a" where
  "or_default d x = (case x of None \<Rightarrow> d | Some v \<Rightarrow> v)"

definition setHeaders :: "(string \<times> string) list \<Rightarrow> ApiCall \<Rightarrow> ApiCall" where
  "setHeaders hs = on_req (Set_all hs)"

definition setHeader :: "string \<Rightarrow> string \<Rightarrow> ApiCall \<Rightarrow> ApiCall" where
  "setHeader key val = on_req (Set_one key val)"

definition unsetHeader :: "string \<Rightarrow> ApiCall \<Rightarrow> ApiCall" where
  "unsetHeader key = on_req (Unset key)"

definition setContentType :: "string \<Rightarrow> ApiCall \<Rightarrow> ApiCall" where
  "setContentType val = on_req (Type val)"

text \<open>
  \<open>this.req.query({ key, value })\<close>: the object literal is shorthand for
  \<open>{ key: key, value: value }\<close>, an object with the two properties \<open>key\<close> and \<open>value\<close>.
\<close>

definition setQueryParam :: "string \<Rightarrow> string \<Rightarrow> ApiCall \<Rightarrow> ApiCall" where
  "setQueryParam key val = on_req (Query_obj [(''key'', key), (''value'', val)])"

definition setQueryParams :: "(string \<times> string) list \<Rightarrow> ApiCall \<Rightarrow> ApiCall" where
  "setQueryParams q = on_req (Query_obj q)"

definition setQuery :: "string \<Rightarrow> ApiCall \<Rightarrow> ApiCall" where
  "setQuery q = on_req (Query_str q)"

definition setBody :: "json \<Rightarrow> ApiCall \<Rightarrow> ApiCall" where
  "setBody b = on_req (Send b)"

definition setFormBody :: "(string \<times> string) list \<Rightarrow> ApiCall \<Rightarrow> ApiCall" where
  "setFormBody b = on_req (Send_form b)"

definition attach ::
  "string \<Rightarrow> multipart_value \<Rightarrow> attach_options option \<Rightarrow> ApiCall \<Rightarrow> ApiCall" where
  "attach fieldName file options = on_req (Attach fieldName file options)"

definition attachImage :: "string \<Rightarrow> multipart_value \<Rightarrow> ApiCall \<Rightarrow> ApiCall" where
  "attachImage fieldName file = on_req (Attach fieldName file None)"

definition setOnceErrorHandler :: "callback \<Rightarrow> ApiCall \<Rightarrow> ApiCall" where
  "setOnceErrorHandler handler = on_req (Once ''error'' handler)"

definition setOnErrorHandler :: "callback \<Rightarrow> ApiCall \<Rightarrow> ApiCall" where
  "setOnErrorHandler handler = on_req (On ''error'' handler)"

definition setOnceResponseHandler :: "callback \<Rightarrow> ApiCall \<Rightarrow> ApiCall" where
  "setOnceResponseHandler handler = on_req (Once ''response'' handler)"

definition setOnResponseHandler :: "callback \<Rightarrow> ApiCall \<Rightarrow> ApiCall" where
  "setOnResponseHandler handler = on_req (On ''response'' handler)"

definition directRequestTo :: "string \<Rightarrow> ApiCall \<Rightarrow> ApiCall" where
  "directRequestTo ipAddress = on_req (Connect_ip ipAddress)"

definition trustLocalHost :: "bool option \<Rightarrow> ApiCall \<Rightarrow> ApiCall" where
  "trustLocalHost enable = on_req (TrustLocalhost (or_default True enable))"

definition directRequestsTo :: "(string \<times> string) list \<Rightarrow> ApiCall \<Rightarrow> ApiCall" where
  "directRequestsTo ipAddresses = on_req (Connect_map ipAddresses)"

definition setSuccessCondition :: "callback \<Rightarrow> ApiCall \<Rightarrow> ApiCall" where
  "setSuccessCondition cb = on_req (Ok cb)"

definition setMultipartField :: "string \<Rightarrow> field_value \<Rightarrow> ApiCall \<Rightarrow> ApiCall" where
  "setMultipartField fieldName fieldValue = on_req (Field fieldName fieldValue)"

text \<open>\<open>setType\<close> calls \<open>this.req.send(type)\<close>, with \<open>'json'\<close> for an omitted argument.\<close>

definition setType :: "string option \<Rightarrow> ApiCall \<Rightarrow> ApiCall" where
  "setType ty = on_req (Send (JStr (or_default ''json'' ty)))"

definition disableTLSCerts :: "ApiCall \<Rightarrow> ApiCall" where
  "disableTLSCerts = on_req DisableTLSCerts"

definition setCaCertificate :: "string \<Rightarrow> ApiCall \<Rightarrow> ApiCall" where
  "setCaCertificate ca = on_req (Ca ca)"

definition abort :: "ApiCall \<Rightarrow> ApiCall" where
  "abort = on_req Abort"

definition enableLogging :: "bool option \<Rightarrow> bool option \<Rightarrow> ApiCall \<Rightarrow> ApiCall" where
  "enableLogging outgoing timestamp =
     on_req (Use (ApiLogger (or_default True outgoing) (or_default True timestamp)))"

definition setClientPvtKey :: "string \<Rightarrow> ApiCall \<Rightarrow> ApiCall" where
  "setClientPvtKey pvtKey = on_req (Key pvtKey)"

definition setClientCertificate :: "string \<Rightarrow> ApiCall \<Rightarrow> ApiCall" where
  "setClientCertificate clientCert = on_req (Cert clientCert)"

text \<open>\<open>setAccept\<close> calls \<open>this.req.send(type)\<close> too, with the same default.\<close>

definition setAccept :: "string option \<Rightarrow> ApiCall \<Rightarrow> ApiCall" where
  "setAccept ty = on_req (Send (JStr (or_default ''json'' ty)))"

definition setBearerAuthToken :: "string \<Rightarrow> ApiCall \<Rightarrow> ApiCall" where
  "setBearerAuthToken token = on_req (Set_one ''Authorization'' (''Bearer '' @ token))"

definition setBasicAuthToken :: "string \<Rightarrow> ApiCall \<Rightarrow> ApiCall" where
  "setBasicAuthToken token = on_req (Set_one ''Authorization'' (''Basic '' @ token))"

definition setDigestAuthToken :: "string \<Rightarrow> ApiCall \<Rightarrow> ApiCall" where
  "setDigestAuthToken token = on_req (Set_one ''Authorization'' (''Digest '' @ token))"

definition setBearerAuth :: "string \<Rightarrow> ApiCall \<Rightarrow> ApiCall" where
  "setBearerAuth token = on_req (Auth_token token ''bearer'')"

definition setAuth :: "string \<Rightarrow> string \<Rightarrow> string \<Rightarrow> ApiCall \<Rightarrow> ApiCall" where
  "setAuth user password option_type = on_req (Auth_user user password option_type)"

definition setBasicAuth :: "string \<Rightarrow> string \<Rightarrow> ApiCall \<Rightarrow> ApiCall" where
  "setBasicAuth user password = on_req (Auth_user user password ''basic'')"

definition setSerialize :: "callback \<Rightarrow> ApiCall \<Rightarrow> ApiCall" where
  "setSerialize serializer = on_req (Serialize serializer)"

definition setParser :: "callback \<Rightarrow> ApiCall \<Rightarrow> ApiCall" where
  "setParser parser = on_req (Parse parser)"

definition setRetry :: "int \<Rightarrow> callback option \<Rightarrow> ApiCall \<Rightarrow> ApiCall" where
  "setRetry count cb = on_req (Retry count cb)"

definition setRedirect :: "int \<Rightarrow> ApiCall \<Rightarrow> ApiCall" where
  "setRedirect count = on_req (Redirects count)"

definition setPlugin :: "callback \<Rightarrow> ApiCall \<Rightarrow> ApiCall" where
  "setPlugin fn = on_req (Use (PluginFn fn))"

definition setTimeout :: "timeout_arg \<Rightarrow> ApiCall \<Rightarrow> ApiCall" where
  "setTimeout ms = on_req (Timeout ms)"

definition clearTimeout :: "ApiCall \<Rightarrow> ApiCall" where
  "clearTimeout = on_req ClearTimeout"

definition enableHttp2 :: "bool \<Rightarrow> ApiCall \<Rightarrow> ApiCall" where
  "enableHttp2 enable = on_req (Http2 enable)"

definition setBuffer :: "bool \<Rightarrow> ApiCall \<Rightarrow> ApiCall" where
  "setBuffer enable = on_req (Buffer enable)"

definition expectStatus :: "int \<Rightarrow> ApiCall \<Rightarrow> ApiCall" where
  "expectStatus status = on_req (Expect_status status)"

definition expectResponse :: "(response \<Rightarrow> string option) \<Rightarrow> ApiCall \<Rightarrow> ApiCall" where
  "expectResponse checker = on_req (Expect_fn checker)"

definition expectBody :: "json \<Rightarrow> ApiCall \<Rightarrow> ApiCall" where
  "expectBody b = on_req (Expect_body b)"

definition expectField :: "string \<Rightarrow> string \<Rightarrow> ApiCall \<Rightarrow> ApiCall" where
  "expectField fieldName val = on_req (Expect_field fieldName val)"

text \<open>
  A call of one of these methods with its arguments, so that a statement can range over
  all of them, and \<open>invoke\<close>, which makes the call.
\<close>

datatype config_call =
    Do_setHeaders "(string \<times> string) list"
  | Do_setHeader string string
  | Do_unsetHeader string
  | Do_setContentType string
  | Do_setQueryParam string string
  | Do_setQueryParams "(string \<times> string) list"
  | Do_setQuery string
  | Do_setBody json
  | Do_setFormBody "(string \<times> string) list"
  | Do_attach string multipart_value "attach_options option"
  | Do_attachImage string multipart_value
  | Do_setOnceErrorHandler callback
  | Do_setOnErrorHandler callback
  | Do_setOnceResponseHandler callback
  | Do_setOnResponseHandler callback
  | Do_directRequestTo string
  | Do_trustLocalHost "bool option"
  | Do_directRequestsTo "(string \<times> string) list"
  | Do_setSuccessCondition callback
  | Do_setMultipartField string field_value
  | Do_setType "string option"
  | Do_disableTLSCerts
  | Do_setCaCertificate string
  | Do_abort
  | Do_enableLogging "bool option" "bool option"
  | Do_setClientPvtKey string
  | Do_setClientCertificate string
  | Do_setAccept "string option"
  | Do_setBearerAuthToken string
  | Do_setBasicAuthToken string
  | Do_setDigestAuthToken string
  | Do_setBearerAuth string
  | Do_setAuth string string string
  | Do_setBasicAuth string string
  | Do_setSerialize callback
  | Do_setParser callback
  | Do_setRetry int "callback option"
  | Do_setRedirect int
  | Do_setPlugin callback
  | Do_setTimeout timeout_arg
  | Do_clearTimeout
  | Do_enableHttp2 bool
  | Do_setBuffer bool
  | Do_expectStatus int
  | Do_expectResponse "response \<Rightarrow> string option"
  | Do_expectBody json
  | Do_expectField string string

fun invoke :: "config_call \<Rightarrow> ApiCall \<Rightarrow> ApiCall" where
  "invoke (Do_setHeaders hs) = setHeaders hs"
| "invoke (Do_setHeader k v) = setHeader k v"
| "invoke (Do_unsetHeader k) = unsetHeader k"
| "invoke (Do_setContentType v) = setContentType v"
| "invoke (Do_setQueryParam k v) = setQueryParam k v"
| "invoke (Do_setQueryParams q) = setQueryParams q"
| "invoke (Do_setQuery q) = setQuery q"
| "invoke (Do_setBody b) = setBody b"
| "invoke (Do_setFormBody b) = setFormBody b"
| "invoke (Do_attach n file opts) = attach n file opts"
| "invoke (Do_attachImage n file) = attachImage n file"
| "invoke (Do_setOnceErrorHandler h) = setOnceErrorHandler h"
| "invoke (Do_setOnErrorHandler h) = setOnErrorHandler h"
| "invoke (Do_setOnceResponseHandler h) = setOnceResponseHandler h"
| "invoke (Do_setOnResponseHandler h) = setOnResponseHandler h"
| "invoke (Do_directRequestTo ip) = directRequestTo ip"
| "invoke (Do_trustLocalHost e) = trustLocalHost e"
| "invoke (Do_directRequestsTo ips) = directRequestsTo ips"
| "invoke (Do_setSuccessCondition cb) = setSuccessCondition cb"
| "invoke (Do_setMultipartField n v) = setMultipartField n v"
| "invoke (Do_setType ty) = setType ty"
| "invoke Do_disableTLSCerts = disableTLSCerts"
| "invoke (Do_setCaCertificate ca) = setCaCertificate ca"
| "invoke Do_abort = abort"
| "invoke (Do_enableLogging out ts) = enableLogging out ts"
| "invoke (Do_setClientPvtKey k) = setClientPvtKey k"
| "invoke (Do_setClientCertificate c) = setClientCertificate c"
| "invoke (Do_setAccept ty) = setAccept ty"
| "invoke (Do_setBearerAuthToken t) = setBearerAuthToken t"
| "invoke (Do_setBasicAuthToken t) = setBasicAuthToken t"
| "invoke (Do_setDigestAuthToken t) = setDigestAuthToken t"
| "invoke (Do_setBearerAuth t) = setBearerAuth t"
| "invoke (Do_setAuth u p ty) = setAuth u p ty"
| "invoke (Do_setBasicAuth u p) = setBasicAuth u p"
| "invoke (Do_setSerialize s) = setSerialize s"
| "invoke (Do_setParser p) = setParser p"
| "invoke (Do_setRetry n cb) = setRetry n cb"
| "invoke (Do_setRedirect n) = setRedirect n"
| "invoke (Do_setPlugin fn) = setPlugin fn"
| "invoke (Do_setTimeout ms) = setTimeout ms"
| "invoke Do_clearTimeout = clearTimeout"
| "invoke (Do_enableHttp2 e) = enableHttp2 e"
| "invoke (Do_setBuffer e) = setBuffer e"
| "invoke (Do_expectStatus n) = expectStatus n"
| "invoke (Do_expectResponse chk) = expectResponse chk"
| "invoke (Do_expectBody b) = expectBody b"
| "invoke (Do_expectField n v) = expectField n v"

subsection \<open>Response accessors\<close>

text \<open>
  Each guarded accessor is \<open>if (this.res) return this.res.p; else throw Error(...)\<close>.
\<close>

definition getResponseText :: "ApiCall \<Rightarrow> error + jsvalue" where
  "getResponseText f =
     (if truthy (res f) then Inr (get_prop (res f) ''text'') else Inl ResponseUndefined)"

definition getResponseBody :: "ApiCall \<Rightarrow> error + jsvalue" where
  "getResponseBody f =
     (if truthy (res f) then Inr (get_prop (res f) ''body'') else Inl ResponseUndefined)"

definition getResponseHeaders :: "ApiCall \<Rightarrow> error + jsvalue" where
  "getResponseHeaders f =
     (if truthy (res f) then Inr (get_prop (res f) ''headers'') else Inl ResponseUndefined)"

text \<open>
  \<open>this.res.get(headerName)\<close> is a method call: on a response it looks the header up, on
  any other value there is no function \<open>get\<close> to call.
\<close>

definition call_get :: "jsvalue \<Rightarrow> string \<Rightarrow> error + jsvalue" where
  "call_get v headerName =
     (case v of
        Resp r \<Rightarrow>
          Inr (case rget r headerName of None \<Rightarrow> Undefined | Some s \<Rightarrow> Plain (JStr s))
      | Undefined \<Rightarrow> Inl TypeError
      | Plain d \<Rightarrow> Inl TypeError)"

definition getResponseHeader :: "string \<Rightarrow> ApiCall \<Rightarrow> error + jsvalue" where
  "getResponseHeader headerName f =
     (if truthy (res f) then call_get (res f) headerName else Inl ResponseUndefined)"

definition getResponseContentType :: "ApiCall \<Rightarrow> error + jsvalue" where
  "getResponseContentType f =
     (if truthy (res f) then Inr (get_prop (res f) ''type'') else Inl ResponseUndefined)"

definition getResponseStatusCode :: "ApiCall \<Rightarrow> error + jsvalue" where
  "getResponseStatusCode f =
     (if truthy (res f) then Inr (get_prop (res f) ''statusCode'')
      else Inl ResponseUndefined)"

text \<open>\<open>getRawResponse\<close> is \<open>return this.res;\<close> with no test.\<close>

definition getRawResponse :: "ApiCall \<Rightarrow> error + jsvalue" where
  "getRawResponse f = Inr (res f)"

definition getRawRequest :: "ApiCall \<Rightarrow> test_req" where
  "getRawRequest f = req f"

definition clientErrorResponse :: "ApiCall \<Rightarrow> error + jsvalue" where
  "clientErrorResponse f =
     (if truthy (res f) then Inr (get_prop (res f) ''clientError'')
      else Inl ResponseUndefined)"

definition serverErrorResponse :: "ApiCall \<Rightarrow> error + jsvalue" where
  "serverErrorResponse f =
     (if truthy (res f) then Inr (get_prop (res f) ''serverError'')
      else Inl ResponseUndefined)"

definition okResponse :: "ApiCall \<Rightarrow> error + jsvalue" where
  "okResponse f =
     (if truthy (res f) then Inr (get_prop (res f) ''ok'') else Inl ResponseUndefined)"

definition unAuthorizedResponse :: "ApiCall \<Rightarrow> error + jsvalue" where
  "unAuthorizedResponse f =
     (if truthy (res f) then Inr (get_prop (res f) ''unauthorized'')
      else Inl ResponseUndefined)"

definition getXHR :: "ApiCall \<Rightarrow> error + jsvalue" where
  "getXHR f =
     (if truthy (res f) then Inr (get_prop (res f) ''xhr'') else Inl ResponseUndefined)"

subsection \<open>Terminal operations\<close>

text \<open>
  \<open>end(callback)\<close> is \<open>this.req.end(callback);\<close> and nothing else: the request is handed
  to the HTTP client together with the callback, and no value comes back.
\<close>

definition end_call :: "callback option \<Rightarrow> ApiCall \<Rightarrow> ApiCall" where
  "end_call cb = on_req (End cb)"

text \<open>
  Modelled from the spec: how the HTTP client, which is not part of the repository,
  settles a dispatched request. The registered expectations are "declarative checks to
  be evaluated against the eventual response by the underlying transport; a failed check
  must surface as a dispatch-time error describing the mismatch (expected vs. actual)".
  \<open>check_expectation\<close> evaluates one registered call against the response (a status
  against the status code, a body against the body, a field against the header of that
  name, a checker by running it; any other call is no expectation), \<open>first_mismatch\<close>
  goes through the calls in the order they were made, and \<open>settle\<close> turns what the
  network delivered into the outcome of the dispatch: a transport error stays one, a
  response that fails a check becomes that check's error, any other response resolves.
\<close>

definition check_expectation :: "lib_call \<Rightarrow> response \<Rightarrow> mismatch option" where
  "check_expectation c r =
     (case c of
        Expect_status n \<Rightarrow>
          (if statusCode r = n then None else Some (StatusMismatch n (statusCode r)))
      | Expect_body b \<Rightarrow> (if body r = b then None else Some (BodyMismatch b (body r)))
      | Expect_field k v \<Rightarrow>
          (if rget r k = Some v then None else Some (HeaderMismatch k v (rget r k)))
      | Expect_fn checker \<Rightarrow> map_option CheckFailed (checker r)
      | _ \<Rightarrow> None)"

fun first_mismatch :: "lib_call list \<Rightarrow> response \<Rightarrow> mismatch option" where
  "first_mismatch [] r = None"
| "first_mismatch (c # cs) r =
     (case check_expectation c r of
        Some m \<Rightarrow> Some m
      | None \<Rightarrow> first_mismatch cs r)"

definition settle :: "test_req \<Rightarrow> error + response \<Rightarrow> error + response" where
  "settle t net =
     (case net of
        Inl e \<Rightarrow> Inl e
      | Inr r \<Rightarrow>
          (case first_mismatch (calls t) r of
             Some m \<Rightarrow> Inl (ExpectationMismatch m)
           | None \<Rightarrow> Inr r))"

text \<open>
  \<open>this.req.then(onfulfilled, onrejected)\<close> is a promise's \<open>then\<close>: a handler that is given
  (not \<open>null\<close>, not omitted) runs on the matching outcome and its return value is the
  result, or its throw the rejection; without the handler the outcome passes through.
\<close>

definition then_call ::
  "(response \<Rightarrow> error + jsvalue) option \<Rightarrow> (error \<Rightarrow> error + jsvalue) option \<Rightarrow>
   error + response \<Rightarrow> error + jsvalue" where
  "then_call onfulfilled onrejected outcome =
     (case outcome of
        Inr r \<Rightarrow> (case onfulfilled of None \<Rightarrow> Inr (Resp r) | Some h \<Rightarrow> h r)
      | Inl e \<Rightarrow> (case onrejected of None \<Rightarrow> Inl e | Some h \<Rightarrow> h e))"

text \<open>
  \<open>done\<close>: \<open>this.res = await this.req.then(onfulfilled, onrejected)\<close> inside
  \<open>try { } catch (err) { throw err; }\<close>, then \<open>return this.res\<close>. A rejection leaves the
  assignment undone and reaches the caller. The third argument is what the network
  delivers for this request.
\<close>

definition done_call ::
  "(response \<Rightarrow> error + jsvalue) option \<Rightarrow> (error \<Rightarrow> error + jsvalue) option \<Rightarrow>
   error + response \<Rightarrow> ApiCall \<Rightarrow> (error + jsvalue) \<times> ApiCall" where
  "done_call onfulfilled onrejected net f =
     (case then_call onfulfilled onrejected (settle (req f) net) of
        Inl err \<Rightarrow> (Inl err, f)
      | Inr v \<Rightarrow> (Inr v, f\<lparr>res := v\<rparr>))"

subsection \<open>Sequences of operations\<close>

text \<open>
  Any use of an \<open>ApiCall\<close> object short of reading the response is a sequence of these
  operations. \<open>resolves\<close> tells whether an operation is a \<open>done\<close> that returns to its
  caller instead of throwing; \<open>none_resolved\<close> whether a whole sequence has none.
\<close>

datatype facade_op =
    Configure config_call
  | Call_end "callback option"
  | Call_done "(response \<Rightarrow> error + jsvalue) option" "(error \<Rightarrow> error + jsvalue) option"
      "error + response"

fun step :: "facade_op \<Rightarrow> ApiCall \<Rightarrow> ApiCall" where
  "step (Configure c) f = invoke c f"
| "step (Call_end cb) f = end_call cb f"
| "step (Call_done onfulfilled onrejected net) f = snd (done_call onfulfilled onrejected net f)"

fun resolves :: "facade_op \<Rightarrow> ApiCall \<Rightarrow> bool" where
  "resolves (Configure c) f = False"
| "resolves (Call_end cb) f = False"
| "resolves (Call_done onfulfilled onrejected net) f =
     (case fst (done_call onfulfilled onrejected net f) of Inl e \<Rightarrow> False | Inr v \<Rightarrow> True)"

fun run :: "facade_op list \<Rightarrow> ApiCall \<Rightarrow> ApiCall" where
  "run [] f = f"
| "run (x # xs) f = run xs (step x f)"

fun none_resolved :: "facade_op list \<Rightarrow> ApiCall \<Rightarrow> bool" where
  "none_resolved [] f = True"
| "none_resolved (x # xs) f = (\<not> resolves x f \<and> none_resolved xs (step x f))"

section \<open>The CRUD service (\<open>express-app\<close>)\<close>

subsection \<open>The schema of \<open>models.js\<close>\<close>

text \<open>
  The types a path can have: the three that \<open>models.js\<close> declares and the type of the
  identity key, which every schema has without declaring it.
\<close>

datatype schema_type = TString | TNumber | TBoolean | TObjectId

record path_options =
  ptype :: schema_type
  required :: bool
  default_value :: "json option"

definition UserSchema :: "(string \<times> path_options) list" where
  "UserSchema =
     [(''name'', \<lparr>ptype = TString, required = True, default_value = None\<rparr>),
      (''job'', \<lparr>ptype = TString, required = True, default_value = None\<rparr>),
      (''age'', \<lparr>ptype = TNumber, required = True, default_value = None\<rparr>),
      (''isMarried'',
         \<lparr>ptype = TBoolean, required = False, default_value = Some (JBool True)\<rparr>)]"

subsection \<open>The document store\<close>

text \<open>
  Modelled from the spec: the document store and its mapper, which are outside the
  repository. The handlers of \<open>app.js\<close> use the model's constructor and five of its
  operations (\<open>find\<close>, \<open>findById\<close>, \<open>save\<close>, \<open>updateOne\<close>, \<open>findByIdAndDelete\<close>). The
  spec gives a user record as "name (required string), job (required string), age
  (required number), married flag (optional boolean, default true), identity key
  (assigned by the store on creation)", "created on POST, read on GET, replaced on PUT,
  removed on DELETE", with "no validation beyond the schema's required-field
  constraints", an absent record as a null body, and among the error kinds the
  "store-error (document validation or connectivity failure in the CRUD service)",
  which the service "does not catch".

  A document is the map from the names of its members to their values: the order of the
  members of a JSON object carries no meaning and is not modelled. The store is the
  state of the connection together with the documents of the collection, oldest first.
\<close>

type_synonym document = "string \<rightharpoonup> json"

record store =
  connected :: bool
  users :: "document list"

text \<open>
  The errors of a store operation: a value that cannot be read as the type of its path,
  a document that fails validation, an operation that waited for a connection that
  never came, and a second document with the identity key of a stored one.
\<close>

datatype store_error = CastError | ValidationError | BufferingTimeout | DuplicateKey

text \<open>
  Reading a string as an identity key: 24 hexadecimal digits, in either case; the key is
  the same digits in lower case. Any other string is a cast error.
\<close>

definition hex_digit :: "char \<Rightarrow> bool" where
  "hex_digit c = (c \<in> set ''0123456789abcdefABCDEF'')"

definition lower_hex :: "char \<Rightarrow> char" where
  "lower_hex c =
     (if c = CHR ''A'' then CHR ''a'' else if c = CHR ''B'' then CHR ''b''
      else if c = CHR ''C'' then CHR ''c'' else if c = CHR ''D'' then CHR ''d''
      else if c = CHR ''E'' then CHR ''e'' else if c = CHR ''F'' then CHR ''f''
      else c)"

definition castObjectId :: "string \<Rightarrow> string option" where
  "castObjectId s =
     (if length s = 24 \<and> list_all hex_digit s then Some (map lower_hex s) else None)"

text \<open>
  Reading a value of a request body as the type of its path. The mapper converts
  between types where it can: \<open>None\<close> is its cast error, \<open>null\<close> stays \<open>null\<close>.
  \<^item> A string path takes a string as it is, a number or a boolean as its text, an
    object with a non-empty string member \<open>_id\<close> as that string; an array and any other
    object are refused.
  \<^item> A number path takes a number as it is, a boolean as 1 or 0, the empty string as
    \<open>null\<close>, and a string that spells a number as that number; an array and an object
    are refused. \<open>JNum\<close> holds integers, so \<open>number_of_string\<close> reads the strings that
    spell a decimal integer (blanks around it, an optional sign, digits; only blanks is
    0). A string that spells a number in another way (a fraction, an exponent, a radix
    prefix) stands for a value \<open>JNum\<close> may not be able to hold and is refused here.
  \<^item> A boolean path takes \<open>true\<close>, \<open>'true'\<close>, \<open>1\<close>, \<open>'1'\<close>, \<open>'yes'\<close> as true and
    \<open>false\<close>, \<open>'false'\<close>, \<open>0\<close>, \<open>'0'\<close>, \<open>'no'\<close> as false, and refuses anything else.
  \<^item> The identity key takes the text of the value (of its member \<open>_id\<close> for an object
    that has one) when that text reads as a key; the text of a number never does.
\<close>

definition digit_char :: "nat \<Rightarrow> char" where
  "digit_char n = ''0123456789'' ! (n mod 10)"

function digits :: "nat \<Rightarrow> string" where
  "digits n = (if n < 10 then [digit_char n] else digits (n div 10) @ [digit_char n])"
  by pat_completeness auto
termination
  by (relation "measure id") auto

definition show_int :: "int \<Rightarrow> string" where
  "show_int i = (if i < 0 then CHR ''-'' # digits (nat (- i)) else digits (nat i))"

definition js_blank :: "char \<Rightarrow> bool" where
  "js_blank c = (c \<in> set [CHR '' '', CHR 0x09, CHR 0x0A, CHR 0x0B, CHR 0x0C, CHR 0x0D])"

definition trim :: "string \<Rightarrow> string" where
  "trim s = rev (dropWhile js_blank (rev (dropWhile js_blank s)))"

definition digit_value :: "char \<Rightarrow> nat option" where
  "digit_value =
     map_of [(CHR ''0'', 0), (CHR ''1'', 1), (CHR ''2'', 2), (CHR ''3'', 3), (CHR ''4'', 4),
             (CHR ''5'', 5), (CHR ''6'', 6), (CHR ''7'', 7), (CHR ''8'', 8), (CHR ''9'', 9)]"

fun read_digits :: "nat \<Rightarrow> string \<Rightarrow> nat option" where
  "read_digits acc [] = Some acc"
| "read_digits acc (c # cs) =
     (case digit_value c of None \<Rightarrow> None | Some d \<Rightarrow> read_digits (10 * acc + d) cs)"

definition read_nat :: "string \<Rightarrow> nat option" where
  "read_nat s = (if s = [] then None else read_digits 0 s)"

definition number_of_string :: "string \<Rightarrow> int option" where
  "number_of_string s =
     (case trim s of
        [] \<Rightarrow> Some 0
      | c # cs \<Rightarrow>
          (if c = CHR ''-'' then map_option (\<lambda>n. - int n) (read_nat cs)
           else if c = CHR ''+'' then map_option int (read_nat cs)
           else map_option int (read_nat (c # cs))))"

text \<open>The text JavaScript's \<open>toString\<close> gives a value; \<open>null\<close> in an array is empty.\<close>

fun to_js_string :: "json \<Rightarrow> string" and join_elements :: "json list \<Rightarrow> string" where
  "to_js_string JNull = ''null''"
| "to_js_string (JBool b) = (if b then ''true'' else ''false'')"
| "to_js_string (JNum n) = show_int n"
| "to_js_string (JStr s) = s"
| "to_js_string (JArr xs) = join_elements xs"
| "to_js_string (JObj kvs) = ''[object Object]''"
| "join_elements [] = []"
| "join_elements [x] = (if x = JNull then [] else to_js_string x)"
| "join_elements (x # y # ys) =
     (if x = JNull then [] else to_js_string x) @ '','' @ join_elements (y # ys)"

definition key_of_text :: "string \<Rightarrow> json option" where
  "key_of_text s = map_option JStr (castObjectId s)"

definition falsy_json :: "json \<Rightarrow> bool" where
  "falsy_json v = (v = JNull \<or> v = JBool False \<or> v = JNum 0 \<or> v = JStr [])"

definition cast_value :: "schema_type \<Rightarrow> json \<Rightarrow> json option" where
  "cast_value t v =
     (case t of
        TString \<Rightarrow>
          (case v of
             JNull \<Rightarrow> Some JNull
           | JBool b \<Rightarrow> Some (JStr (to_js_string v))
           | JNum n \<Rightarrow> Some (JStr (to_js_string v))
           | JStr s \<Rightarrow> Some (JStr s)
           | JArr xs \<Rightarrow> None
           | JObj kvs \<Rightarrow>
               (case map_of kvs ''_id'' of
                  Some (JStr s) \<Rightarrow> (if s = [] then None else Some (JStr s))
                | _ \<Rightarrow> None))
      | TNumber \<Rightarrow>
          (case v of
             JNull \<Rightarrow> Some JNull
           | JBool b \<Rightarrow> Some (JNum (if b then 1 else 0))
           | JNum n \<Rightarrow> Some (JNum n)
           | JStr s \<Rightarrow> (if s = [] then Some JNull else map_option JNum (number_of_string s))
           | JArr xs \<Rightarrow> None
           | JObj kvs \<Rightarrow> None)
      | TBoolean \<Rightarrow>
          (if v = JBool True \<or> v = JStr ''true'' \<or> v = JNum 1 \<or> v = JStr ''1'' \<or>
              v = JStr ''yes'' then Some (JBool True)
           else if v = JBool False \<or> v = JStr ''false'' \<or> v = JNum 0 \<or> v = JStr ''0'' \<or>
              v = JStr ''no'' then Some (JBool False)
           else if v = JNull then Some JNull
           else None)
      | TObjectId \<Rightarrow>
          (case v of
             JNull \<Rightarrow> Some JNull
           | JObj kvs \<Rightarrow>
               (case map_of kvs ''_id'' of
                  None \<Rightarrow> None
                | Some w \<Rightarrow> (if falsy_json w then None else key_of_text (to_js_string w)))
           | JNum n \<Rightarrow> None
           | _ \<Rightarrow> key_of_text (to_js_string v)))"










definition find_all :: "store \<Rightarrow> store_error + document list" where
  "find_all st = (if connected st then Inr (users st) else Inl BufferingTimeout)"

text \<open>
  \<open>findById\<close> and \<open>findByIdAndDelete\<close> read the id as an identity key before anything
  else, then need the connection, then look for the document with that key.
\<close>

definition has_id :: "string \<Rightarrow> document \<Rightarrow> bool" where
  "has_id k d = (d ''_id'' = Some (JStr k))"

definition findById :: "string \<Rightarrow> store \<Rightarrow> store_error + document option" where
  "findById ident st =
     (case castObjectId ident of
        None \<Rightarrow> Inl CastError
      | Some k \<Rightarrow>
          (if connected st then Inr (List.find (has_id k) (users st))
           else Inl BufferingTimeout))"

fun delete_first :: "('a \<Rightarrow> bool) \<Rightarrow> 'a list \<Rightarrow> 'a list" where
  "delete_first P [] = []"
| "delete_first P (x # xs) = (if P x then xs else x # delete_first P xs)"

definition findByIdAndDelete :: "string \<Rightarrow> store \<Rightarrow> store_error + document option \<times> store" where
  "findByIdAndDelete ident st =
     (case castObjectId ident of
        None \<Rightarrow> Inl CastError
      | Some k \<Rightarrow>
          (if connected st
           then Inr (List.find (has_id k) (users st),
                     st\<lparr>users := delete_first (has_id k) (users st)\<rparr>)
           else Inl BufferingTimeout))"

text \<open>
  \<open>updateOne(filter, update)\<close> changes the first document that matches the filter, setting
  the declared paths the update names and leaving every other member as it was. A
  document matches when it holds each member of the filter with an equal value. The
  mapper's option \<open>strictQuery\<close>, which the repository does not set and whose default
  differs between the mapper's versions, removes from the filter every name that is not
  a path of the schema; it is a parameter here.
\<close>

definition schema_paths :: "string list" where
  "schema_paths = ''_id'' # map fst UserSchema @ [''__v'']"

definition cast_filter :: "bool \<Rightarrow> (string \<times> json) list \<Rightarrow> (string \<times> json) list" where
  "cast_filter strictQuery flt =
     (if strictQuery then filter (\<lambda>(k, v). k \<in> set schema_paths) flt else flt)"

definition matches :: "(string \<times> json) list \<Rightarrow> document \<Rightarrow> bool" where
  "matches flt d = list_all (\<lambda>(k, v). d k = Some v) flt"

fun set_paths :: "string list \<Rightarrow> (string \<rightharpoonup> json) \<Rightarrow> document \<Rightarrow> document" where
  "set_paths [] upd d = d"
| "set_paths (p # ps) upd d =
     set_paths ps upd (case upd p of None \<Rightarrow> d | Some v \<Rightarrow> d(p \<mapsto> v))"

definition apply_update :: "(string \<rightharpoonup> json) \<Rightarrow> document \<Rightarrow> document" where
  "apply_update upd d = set_paths (map fst UserSchema) upd d"

fun update_first :: "('a \<Rightarrow> bool) \<Rightarrow> ('a \<Rightarrow> 'a) \<Rightarrow> 'a list \<Rightarrow> 'a list" where
  "update_first P g [] = []"
| "update_first P g (x # xs) = (if P x then g x # xs else x # update_first P g xs)"

definition updateOne ::
  "bool \<Rightarrow> (string \<times> json) list \<Rightarrow> (string \<rightharpoonup> json) \<Rightarrow> store \<Rightarrow> store_error + store" where
  "updateOne strictQuery flt upd st =
     (if connected st
      then Inr (st\<lparr>users :=
                  update_first (matches (cast_filter strictQuery flt)) (apply_update upd)
                    (users st)\<rparr>)
      else Inl BufferingTimeout)"

subsection \<open>The route handlers of \<open>app.js\<close>\<close>

text \<open>
  A handler takes the parameters of its route, the request body where it reads one, and
  the store; it gives back \<open>res.status(n).json(value)\<close>, or the error of a store
  operation, which no handler catches and which ends it without a reply, and the store
  afterwards. \<open>res.json\<close> writes \<open>null\<close> for a missing document.
\<close>

datatype reply_body = Null | Document document | Documents "document list"

record reply =
  status :: int
  json :: reply_body

definition doc_json :: "document option \<Rightarrow> reply_body" where
  "doc_json d = (case d of None \<Rightarrow> Null | Some x \<Rightarrow> Document x)"

definition get_users :: "store \<Rightarrow> (store_error + reply) \<times> store" where
  "get_users st =
     (case find_all st of
        Inl e \<Rightarrow> (Inl e, st)
      | Inr allUsers \<Rightarrow> (Inr \<lparr>status = 200, json = Documents allUsers\<rparr>, st))"

definition get_users_id :: "string \<Rightarrow> store \<Rightarrow> (store_error + reply) \<times> store" where
  "get_users_id ident st =
     (case findById ident st of
        Inl e \<Rightarrow> (Inl e, st)
      | Inr user \<Rightarrow> (Inr \<lparr>status = 200, json = doc_json user\<rparr>, st))"


text \<open>
  \<open>PUT /users/:id\<close>: the filter of the update is the object literal \<open>{ id }\<close>, that is
  \<open>{ id: id }\<close>; the document sent back is then read with \<open>findById(id)\<close>.
\<close>

definition put_users_id ::
  "bool \<Rightarrow> string \<Rightarrow> (string \<rightharpoonup> json) \<Rightarrow> store \<Rightarrow> (store_error + reply) \<times> store" where
  "put_users_id strictQuery ident b st =
     (case updateOne strictQuery [(''id'', JStr ident)] b st of
        Inl e \<Rightarrow> (Inl e, st)
      | Inr st' \<Rightarrow>
          (case findById ident st' of
             Inl e \<Rightarrow> (Inl e, st')
           | Inr updatedUser \<Rightarrow> (Inr \<lparr>status = 200, json = doc_json updatedUser\<rparr>, st')))"

definition delete_users_id :: "string \<Rightarrow> store \<Rightarrow> (store_error + reply) \<times> store" where
  "delete_users_id ident st =
     (case findByIdAndDelete ident st of
        Inl e \<Rightarrow> (Inl e, st)
      | Inr (deletedUser, st') \<Rightarrow> (Inr \<lparr>status = 200, json = doc_json deletedUser\<rparr>, st'))"

text \<open>
  \<open>start\<close> only listens: the call that opens the connection is commented out, and nothing
  else in the service opens it. So the service as started works on a store that is not
  connected, whatever the database holds.
\<close>

definition start :: "document list \<Rightarrow> store" where
  "start db = \<lparr>connected = False, users = db\<rparr>"

text \<open>
  Whether an id identifies a stored record: it reads as a key, and a stored document
  has that key.
\<close>

definition identifies :: "string \<Rightarrow> store \<Rightarrow> bool" where
  "identifies ident st =
     (case castObjectId ident of
        None \<Rightarrow> False
      | Some k \<Rightarrow> list_ex (has_id k) (users st))"

section \<open>Sample data\<close>

text \<open>
  The canned answer of \<open>mocks/nock_api.ts\<close>: \<open>GET http://127.0.0.1:8080/user\<close> replies
  with status 200, the body \<open>{name: "Krishna", age: 21, address: "Homeless"}\<close> and the
  header \<open>Content-Type: application/json\<close>; and an \<open>ApiCall\<close> object just constructed
  for that address.
\<close>

definition quoted :: "string \<Rightarrow> string" where
  "quoted s = CHR 0x22 # s @ [CHR 0x22]"

definition nock_user_response :: response where
  "nock_user_response =
     \<lparr>statusCode = 200,
      headers = [(''content-type'', ''application/json'')],
      body = JObj [(''name'', JStr ''Krishna''), (''age'', JNum 21),
                   (''address'', JStr ''Homeless'')],
      rtext = ''{'' @ quoted ''name'' @ '':'' @ quoted ''Krishna'' @ '','' @
              quoted ''age'' @ '':21,'' @ quoted ''address'' @ '':'' @
              quoted ''Homeless'' @ ''}'',
      rtype = ''application/json'',
      clientError = False, serverError = False, ok = True, unauthorized = False,
      xhr = None,
      rget = map_of [(''content-type'', ''application/json'')]\<rparr>"

definition user_endpoint :: string where
  "user_endpoint = ''http://127.0.0.1:8080/user''"

definition fresh_get :: ApiCall where
  "fresh_get =
     \<lparr>endpoint = user_endpoint,
      req = \<lparr>verb = ''GET'', url = user_endpoint, calls = []\<rparr>,
      res = Undefined\<rparr>"

text \<open>
  A connected store with two users, the body of an update, the body of the spec's
  scenario \<open>{name: "A", job: "B", age: 30}\<close>, and that body with an empty name.
\<close>

definition user_A :: document where
  "user_A =
     [''_id'' \<mapsto> JStr ''65f000000000000000000001'', ''name'' \<mapsto> JStr ''A'',
      ''job'' \<mapsto> JStr ''B'', ''age'' \<mapsto> JNum 30, ''isMarried'' \<mapsto> JBool True,
      ''__v'' \<mapsto> JNum 0]"

definition user_K :: document where
  "user_K =
     [''_id'' \<mapsto> JStr ''65f000000000000000000002'', ''name'' \<mapsto> JStr ''Krishna'',
      ''job'' \<mapsto> JStr ''QA'', ''age'' \<mapsto> JNum 21, ''isMarried'' \<mapsto> JBool False,
      ''__v'' \<mapsto> JNum 0]"

definition two_users :: store where
  "two_users = \<lparr>connected = True, users = [user_A, user_K]\<rparr>"

definition body_CD :: "string \<rightharpoonup> json" where
  "body_CD = [''name'' \<mapsto> JStr ''C'', ''job'' \<mapsto> JStr ''D'', ''age'' \<mapsto> JNum 40]"



section \<open>Properties of the request builder\<close>

subsection \<open>What the operations leave alone\<close>

lemma res_on_req: "res (on_req c f) = res f"
  by (simp add: on_req_def)

lemma invoke_on_req: "\<exists>c. invoke m f = on_req c f"
  by (cases m)
     (auto simp: setHeaders_def setHeader_def unsetHeader_def setContentType_def
        setQueryParam_def setQueryParams_def setQuery_def setBody_def setFormBody_def
        attach_def attachImage_def setOnceErrorHandler_def setOnErrorHandler_def
        setOnceResponseHandler_def setOnResponseHandler_def directRequestTo_def
        trustLocalHost_def directRequestsTo_def setSuccessCondition_def
        setMultipartField_def setType_def disableTLSCerts_def setCaCertificate_def
        abort_def enableLogging_def setClientPvtKey_def setClientCertificate_def
        setAccept_def setBearerAuthToken_def setBasicAuthToken_def setDigestAuthToken_def
        setBearerAuth_def setAuth_def setBasicAuth_def setSerialize_def setParser_def
        setRetry_def setRedirect_def setPlugin_def setTimeout_def clearTimeout_def
        enableHttp2_def setBuffer_def expectStatus_def expectResponse_def expectBody_def
        expectField_def)

lemma res_invoke: "res (invoke m f) = res f"
  using invoke_on_req [of m f] by (auto simp: res_on_req)

lemma invoke_frame:
  "endpoint (invoke m f) = endpoint f \<and> verb (req (invoke m f)) = verb (req f) \<and>
   url (req (invoke m f)) = url (req f) \<and>
   (\<exists>c. calls (req (invoke m f)) = calls (req f) @ [c])"
  using invoke_on_req [of m f] by (auto simp: on_req_def call_def)

lemma res_step: "\<not> resolves x f \<Longrightarrow> res (step x f) = res f"
  by (cases x) (auto simp: res_invoke end_call_def res_on_req done_call_def split: sum.splits)

lemma res_run: "none_resolved xs f \<Longrightarrow> res (run xs f) = res f"
  by (induction xs arbitrary: f) (auto simp: res_step)

lemma res_new: "new_ApiCall ep m = Inr f \<Longrightarrow> res f = Undefined"
  by (auto simp: new_ApiCall_def split: sum.splits)

lemma new_fresh_get: "new_ApiCall user_endpoint ''GET'' = Inr fresh_get"
  by (simp add: new_ApiCall_def getTest_def agent_request_def fresh_get_def)

lemma first_mismatch_append:
  "first_mismatch (cs @ [c]) r =
     (case first_mismatch cs r of Some m \<Rightarrow> Some m | None \<Rightarrow> check_expectation c r)"
  by (induction cs) (auto split: option.splits)

subsection \<open>Construction\<close>

text \<open>
  Which methods construct: the seven whose label the \<open>switch\<close> reaches, and no other
  string.
\<close>

lemma new_ApiCall_succeeds_iff:
  "(\<exists>f. new_ApiCall ep m = Inr f) \<longleftrightarrow>
   m \<in> {''GET'', ''POST'', ''PUT'', ''DELETE'', ''HEAD'', ''OPTIONS'', ''TRACE''}"
  by (auto simp: new_ApiCall_def getTest_def split: sum.splits)

text \<open>
  C1. Constructing with any of the eight members of \<open>ApiMethods\<close> never fails, and
  constructing with any other value fails with the invalid-method error. The code
  breaks the first half at \<open>PATCH\<close>: it is a member of the enumeration, and constructing
  with it throws the invalid-method error, whatever the endpoint.
\<close>

theorem new_ApiCall_PATCH_fails:
  "''PATCH'' \<in> set ApiMethods \<and> new_ApiCall ep ''PATCH'' = Inl InvalidMethod"
  by (simp add: ApiMethods_def new_ApiCall_def getTest_def)

subsection \<open>Configuration methods\<close>

text \<open>
  C2. Every configuration method changes the one field of the request it is named
  after, with the value given, and returns the same object. The code breaks this at
  three methods: \<open>setAccept\<close> and \<open>setType\<close> make the very call \<open>setBody\<close> makes (\<open>send\<close>,
  which sets the body) with the type name as the body, also when the argument is left
  out; and \<open>setQueryParam('page', '2')\<close> sets the two query parameters \<open>key=page\<close> and
  \<open>value=2\<close>, not \<open>page=2\<close>.
\<close>

theorem setAccept_setType_setQueryParam_calls:
  "setAccept (Some ty) f = setBody (JStr ty) f \<and>
   setType (Some ty) f = setBody (JStr ty) f \<and>
   calls (req (setAccept None f)) = calls (req f) @ [Send (JStr ''json'')] \<and>
   calls (req (setType None f)) = calls (req f) @ [Send (JStr ''json'')] \<and>
   calls (req (setQueryParam ''page'' ''2'' f)) =
     calls (req f) @ [Query_obj [(''key'', ''page''), (''value'', ''2'')]]"
  by (simp add: setAccept_def setType_def setBody_def setQueryParam_def on_req_def call_def
        or_default_def)

subsection \<open>Accessors before a response is stored\<close>

text \<open>
  C3, as stated: on an object on which no terminal operation has resolved, every
  response accessor, \<open>getRawResponse\<close> among them, fails with the uninitialized-response
  error. It does not hold for \<open>getRawResponse\<close>: on the object just constructed it
  returns (\<open>undefined\<close>) and does not fail.
\<close>

theorem getRawResponse_fresh_counterexample:
  "new_ApiCall ''http://127.0.0.1:8080/user'' ''GET'' =
     Inr \<lparr>endpoint = ''http://127.0.0.1:8080/user'',
          req = \<lparr>verb = ''GET'', url = ''http://127.0.0.1:8080/user'', calls = []\<rparr>,
          res = Undefined\<rparr> \<and>
   getRawResponse \<lparr>endpoint = ''http://127.0.0.1:8080/user'',
          req = \<lparr>verb = ''GET'', url = ''http://127.0.0.1:8080/user'', calls = []\<rparr>,
          res = Undefined\<rparr> \<noteq> Inl ResponseUndefined"
  by (simp add: new_ApiCall_def getTest_def agent_request_def getRawResponse_def)

text \<open>
  C3, amended: after construction and any sequence of operations in which no \<open>done\<close> has
  resolved (configuration and expectation calls, \<open>end\<close> calls, \<open>done\<close> calls that were
  rejected), each of the eleven guarded accessors fails with the uninitialized-response
  error, and \<open>getRawResponse\<close> returns \<open>undefined\<close>.
\<close>

theorem accessors_before_resolution:
  assumes "new_ApiCall ep m = Inr f0" and "none_resolved xs f0"
  shows "getResponseText (run xs f0) = Inl ResponseUndefined \<and>
         getResponseBody (run xs f0) = Inl ResponseUndefined \<and>
         getResponseHeaders (run xs f0) = Inl ResponseUndefined \<and>
         getResponseHeader h (run xs f0) = Inl ResponseUndefined \<and>
         getResponseContentType (run xs f0) = Inl ResponseUndefined \<and>
         getResponseStatusCode (run xs f0) = Inl ResponseUndefined \<and>
         clientErrorResponse (run xs f0) = Inl ResponseUndefined \<and>
         serverErrorResponse (run xs f0) = Inl ResponseUndefined \<and>
         okResponse (run xs f0) = Inl ResponseUndefined \<and>
         unAuthorizedResponse (run xs f0) = Inl ResponseUndefined \<and>
         getXHR (run xs f0) = Inl ResponseUndefined \<and>
         getRawResponse (run xs f0) = Inr Undefined"
proof -
  have "res (run xs f0) = Undefined"
    using assms by (simp add: res_run res_new)
  then show ?thesis
    by (simp add: getResponseText_def getResponseBody_def getResponseHeaders_def
          getResponseHeader_def getResponseContentType_def getResponseStatusCode_def
          clientErrorResponse_def serverErrorResponse_def okResponse_def
          unAuthorizedResponse_def getXHR_def getRawResponse_def)
qed

theorem accessors_before_resolution_witness:
  "new_ApiCall user_endpoint ''GET'' = Inr fresh_get \<and>
   none_resolved
     [Configure (Do_expectStatus 404), Call_end None,
      Call_done None None (Inr nock_user_response)] fresh_get \<and>
   getResponseBody
     (run [Configure (Do_expectStatus 404), Call_end None,
           Call_done None None (Inr nock_user_response)] fresh_get) =
     Inl ResponseUndefined \<and>
   getRawResponse
     (run [Configure (Do_expectStatus 404), Call_end None,
           Call_done None None (Inr nock_user_response)] fresh_get) =
     Inr Undefined"
proof -
  have rejected: "none_resolved
     [Configure (Do_expectStatus 404), Call_end None,
      Call_done None None (Inr nock_user_response)] fresh_get"
    by (simp add: expectStatus_def on_req_def call_def end_call_def done_call_def
          then_call_def settle_def check_expectation_def nock_user_response_def
          fresh_get_def)
  show ?thesis
    using new_fresh_get rejected
      accessors_before_resolution [OF new_fresh_get rejected, of "''etag''"]
    by blast
qed

subsection \<open>The terminal operations\<close>

text \<open>
  C4. When \<open>done()\<close>, called without handlers, resolves with the transport's response
  \<open>r\<close>, the value it returns is \<open>r\<close> and a later \<open>getResponseStatusCode()\<close> returns the
  status code of \<open>r\<close>.
\<close>

theorem done_then_getResponseStatusCode:
  assumes "done_call None None (Inr r) f = (Inr v, f')"
  shows "v = Resp r \<and> getResponseStatusCode f' = Inr (Plain (JNum (statusCode r)))"
  using assms
  by (auto simp: done_call_def then_call_def settle_def getResponseStatusCode_def
      split: option.splits)

theorem done_then_getResponseStatusCode_witness:
  "done_call None None (Inr nock_user_response) fresh_get =
     (Inr (Resp nock_user_response), fresh_get\<lparr>res := Resp nock_user_response\<rparr>) \<and>
   getResponseStatusCode (fresh_get\<lparr>res := Resp nock_user_response\<rparr>) =
     Inr (Plain (JNum 200))"
proof -
  have resolved: "done_call None None (Inr nock_user_response) fresh_get =
     (Inr (Resp nock_user_response), fresh_get\<lparr>res := Resp nock_user_response\<rparr>)"
    by (simp add: done_call_def then_call_def settle_def fresh_get_def)
  have status: "statusCode nock_user_response = 200"
    by (simp add: nock_user_response_def)
  show ?thesis
    using done_then_getResponseStatusCode [OF resolved] resolved status by simp
qed

text \<open>
  C5. Against a response of status 200 that passes the expectations registered before,
  \<open>done()\<close> resolves with the response when \<open>expectStatus(200)\<close> was registered, and
  rejects when \<open>expectStatus(404)\<close> was, with the error of a status mismatch that names
  the expected 404 and the actual 200; the rejected call stores nothing.
\<close>

theorem expectStatus_then_done:
  assumes "statusCode r = 200" and "first_mismatch (calls (req f)) r = None"
  shows "done_call None None (Inr r) (expectStatus 200 f) =
           (Inr (Resp r), (expectStatus 200 f)\<lparr>res := Resp r\<rparr>) \<and>
         done_call None None (Inr r) (expectStatus 404 f) =
           (Inl (ExpectationMismatch (StatusMismatch 404 200)), expectStatus 404 f)"
  using assms
  by (simp add: done_call_def then_call_def settle_def expectStatus_def on_req_def call_def
      first_mismatch_append check_expectation_def)

theorem expectStatus_then_done_witness:
  "statusCode nock_user_response = 200 \<and>
   first_mismatch (calls (req fresh_get)) nock_user_response = None \<and>
   done_call None None (Inr nock_user_response) (expectStatus 200 fresh_get) =
     (Inr (Resp nock_user_response),
      (expectStatus 200 fresh_get)\<lparr>res := Resp nock_user_response\<rparr>) \<and>
   done_call None None (Inr nock_user_response) (expectStatus 404 fresh_get) =
     (Inl (ExpectationMismatch (StatusMismatch 404 200)), expectStatus 404 fresh_get)"
proof -
  have status: "statusCode nock_user_response = 200"
    by (simp add: nock_user_response_def)
  have none: "first_mismatch (calls (req fresh_get)) nock_user_response = None"
    by (simp add: fresh_get_def)
  show ?thesis
    using expectStatus_then_done [OF status none] by (simp add: status none)
qed

text \<open>
  C9. \<open>end(callback)\<close> never assigns the stored response: \<open>res\<close> is after the call what it
  was before, so on an object whose \<open>res\<close> is \<open>undefined\<close> the guarded accessors still
  fail with the uninitialized-response error after \<open>end\<close>; and an operation that does
  change \<open>res\<close> is a \<open>done\<close> that resolved.
\<close>

theorem end_call_never_stores:
  "res (end_call cb f) = res f \<and>
   (res f = Undefined \<longrightarrow>
      getResponseText (end_call cb f) = Inl ResponseUndefined \<and>
      getResponseBody (end_call cb f) = Inl ResponseUndefined \<and>
      getResponseHeaders (end_call cb f) = Inl ResponseUndefined \<and>
      getResponseHeader h (end_call cb f) = Inl ResponseUndefined \<and>
      getResponseContentType (end_call cb f) = Inl ResponseUndefined \<and>
      getResponseStatusCode (end_call cb f) = Inl ResponseUndefined \<and>
      clientErrorResponse (end_call cb f) = Inl ResponseUndefined \<and>
      serverErrorResponse (end_call cb f) = Inl ResponseUndefined \<and>
      okResponse (end_call cb f) = Inl ResponseUndefined \<and>
      unAuthorizedResponse (end_call cb f) = Inl ResponseUndefined \<and>
      getXHR (end_call cb f) = Inl ResponseUndefined) \<and>
   (res (step x f) \<noteq> res f \<longrightarrow> resolves x f)"
proof -
  have keep: "res (end_call cb f) = res f"
    by (simp add: end_call_def on_req_def)
  have only: "res (step x f) \<noteq> res f \<longrightarrow> resolves x f"
    using res_step [of x f] by blast
  show ?thesis
    using only
    by (simp add: keep getResponseText_def getResponseBody_def getResponseHeaders_def
          getResponseHeader_def getResponseContentType_def getResponseStatusCode_def
          clientErrorResponse_def serverErrorResponse_def okResponse_def
          unAuthorizedResponse_def getXHR_def)
qed

theorem end_call_never_stores_witness:
  "res fresh_get = Undefined \<and>
   res (end_call (Some (Callback ''cb'')) fresh_get) = Undefined \<and>
   getResponseBody (end_call (Some (Callback ''cb'')) fresh_get) = Inl ResponseUndefined \<and>
   getResponseStatusCode (end_call (Some (Callback ''cb'')) fresh_get) =
     Inl ResponseUndefined \<and>
   res (step (Call_done None None (Inr nock_user_response)) fresh_get) \<noteq> res fresh_get \<and>
   resolves (Call_done None None (Inr nock_user_response)) fresh_get"
proof -
  have undef: "res fresh_get = Undefined"
    by (simp add: fresh_get_def)
  have changed:
    "res (step (Call_done None None (Inr nock_user_response)) fresh_get) \<noteq> res fresh_get"
    by (simp add: done_call_def then_call_def settle_def fresh_get_def)
  show ?thesis
    using end_call_never_stores
      [of "Some (Callback ''cb'')" fresh_get _ "Call_done None None (Inr nock_user_response)"]
      undef changed
    by simp
qed

text \<open>
  C10. When the dispatch resolves with the response \<open>r\<close> and an \<open>onfulfilled\<close> handler is
  given, \<open>done\<close> returns and stores the handler's return value, not \<open>r\<close>; when the
  dispatch is rejected and an \<open>onrejected\<close> handler is given, \<open>done\<close> returns and stores
  that handler's return value. The stored value is the one the accessors read
  afterwards.
\<close>

theorem done_stores_handler_result:
  "(settle (req f) net = Inr r \<and> onfulfilled r = Inr v \<longrightarrow>
      done_call (Some onfulfilled) h2 net f = (Inr v, f\<lparr>res := v\<rparr>)) \<and>
   (settle (req f) net = Inl e \<and> onrejected e = Inr v \<longrightarrow>
      done_call h1 (Some onrejected) net f = (Inr v, f\<lparr>res := v\<rparr>)) \<and>
   getRawResponse (f\<lparr>res := v\<rparr>) = Inr v \<and>
   getResponseStatusCode (f\<lparr>res := v\<rparr>) =
     (if truthy v then Inr (get_prop v ''statusCode'') else Inl ResponseUndefined)"
  by (simp add: done_call_def then_call_def getRawResponse_def getResponseStatusCode_def)

theorem done_stores_handler_result_witness:
  "settle (req fresh_get) (Inr nock_user_response) = Inr nock_user_response \<and>
   done_call (Some (\<lambda>r. Inr (Plain (body r)))) None (Inr nock_user_response) fresh_get =
     (Inr (Plain (body nock_user_response)),
      fresh_get\<lparr>res := Plain (body nock_user_response)\<rparr>) \<and>
   getResponseStatusCode (fresh_get\<lparr>res := Plain (body nock_user_response)\<rparr>) =
     Inr Undefined \<and>
   settle (req fresh_get) (Inl (TransportError ''ECONNREFUSED'')) =
     Inl (TransportError ''ECONNREFUSED'') \<and>
   done_call None (Some (\<lambda>e. Inr (Plain (JStr ''down''))))
       (Inl (TransportError ''ECONNREFUSED'')) fresh_get =
     (Inr (Plain (JStr ''down'')), fresh_get\<lparr>res := Plain (JStr ''down'')\<rparr>) \<and>
   getRawResponse (fresh_get\<lparr>res := Plain (JStr ''down'')\<rparr>) = Inr (Plain (JStr ''down''))"
proof -
  have ful: "settle (req fresh_get) (Inr nock_user_response) = Inr nock_user_response"
    by (simp add: settle_def fresh_get_def)
  have rej: "settle (req fresh_get) (Inl (TransportError ''ECONNREFUSED'')) =
      Inl (TransportError ''ECONNREFUSED'')"
    by (simp add: settle_def)
  have noprop: "get_prop (Plain (body nock_user_response)) ''statusCode'' = Undefined"
    by (simp add: nock_user_response_def opt_value_def)
  have tr: "truthy (Plain (body nock_user_response))"
    by (simp add: nock_user_response_def)
  show ?thesis
    using
      done_stores_handler_result
        [of fresh_get "Inr nock_user_response" nock_user_response
            "\<lambda>r. Inr (Plain (body r))" "Plain (body nock_user_response)" None]
      done_stores_handler_result
        [of fresh_get "Inl (TransportError ''ECONNREFUSED'')" _ _
            "Plain (JStr ''down'')" _ "TransportError ''ECONNREFUSED''"
            "\<lambda>e. Inr (Plain (JStr ''down''))" None]
      ful rej noprop tr
    by simp
qed

section \<open>Properties of the CRUD service\<close>

lemma no_match_find: "\<not> list_ex P xs \<Longrightarrow> List.find P xs = None"
  by (induction xs) auto

lemma no_match_delete_first: "\<not> list_ex P xs \<Longrightarrow> delete_first P xs = xs"
  by (induction xs) auto


text \<open>
  The service as started never answers: every store operation waits for the connection
  that \<open>start\<close> does not open.
\<close>

lemma started_service_never_answers:
  "get_users (start db) = (Inl BufferingTimeout, start db) \<and>
   (castObjectId ident = Some k \<longrightarrow>
      get_users_id ident (start db) = (Inl BufferingTimeout, start db) \<and>
      delete_users_id ident (start db) = (Inl BufferingTimeout, start db)) \<and>
   put_users_id q ident b (start db) = (Inl BufferingTimeout, start db)"
  by (simp add: start_def get_users_def find_all_def get_users_id_def findById_def
      delete_users_id_def findByIdAndDelete_def put_users_id_def updateOne_def)

text \<open>An id in upper case is read as the key of the stored record.\<close>

lemma get_users_id_upper_case:
  "get_users_id ''65F000000000000000000002'' two_users =
     (Inr \<lparr>status = 200, json = Document user_K\<rparr>, two_users)"
  by (simp add: get_users_id_def findById_def castObjectId_def hex_digit_def lower_hex_def
      two_users_def has_id_def user_A_def user_K_def doc_json_def)

text \<open>An age sent as the string \<open>'30'\<close> is stored as the number 30.\<close>

lemma cast_value_numeric_string:
  "cast_value TNumber (JStr ''30'') = Some (JNum 30)"
  by (simp add: cast_value_def number_of_string_def trim_def js_blank_def read_nat_def
      digit_value_def)

text \<open>
  C6. \<open>PUT /users/:id\<close> replaces the stored record with that identity key by the
  request body and answers 200 with the updated record. The code does not: with the
  users \<open>A\<close> and \<open>Krishna\<close> stored, a \<open>PUT\<close> for the key of \<open>Krishna\<close> answers 200 with
  \<open>Krishna\<close>'s record as it was. Without \<open>strictQuery\<close> the filter \<open>{ id }\<close> matches no
  document and the collection stays as it was; with \<open>strictQuery\<close> the filter is empty
  and the update lands on the first document, the record of \<open>A\<close>.
\<close>

theorem put_users_id_misses_record:
  "put_users_id False ''65f000000000000000000002'' body_CD two_users =
     (Inr \<lparr>status = 200, json = Document user_K\<rparr>, two_users) \<and>
   put_users_id True ''65f000000000000000000002'' body_CD two_users =
     (Inr \<lparr>status = 200, json = Document user_K\<rparr>,
      \<lparr>connected = True,
       users = [[''_id'' \<mapsto> JStr ''65f000000000000000000001'', ''name'' \<mapsto> JStr ''C'',
                 ''job'' \<mapsto> JStr ''D'', ''age'' \<mapsto> JNum 40, ''isMarried'' \<mapsto> JBool True,
                 ''__v'' \<mapsto> JNum 0], user_K]\<rparr>)"
proof -
  have key: "castObjectId ''65f000000000000000000002'' = Some ''65f000000000000000000002''"
    by (simp add: castObjectId_def hex_digit_def lower_hex_def)
  have updated: "apply_update body_CD user_A =
      [''_id'' \<mapsto> JStr ''65f000000000000000000001'', ''name'' \<mapsto> JStr ''C'',
       ''job'' \<mapsto> JStr ''D'', ''age'' \<mapsto> JNum 40, ''isMarried'' \<mapsto> JBool True,
       ''__v'' \<mapsto> JNum 0]"
    by (rule ext) (simp add: apply_update_def UserSchema_def body_CD_def user_A_def)
  have loose: "put_users_id False ''65f000000000000000000002'' body_CD two_users =
      (Inr \<lparr>status = 200, json = Document user_K\<rparr>, two_users)"
    by (simp add: put_users_id_def updateOne_def cast_filter_def matches_def findById_def key
        two_users_def has_id_def user_A_def user_K_def doc_json_def)
  have strict: "put_users_id True ''65f000000000000000000002'' body_CD two_users =
      (Inr \<lparr>status = 200, json = Document user_K\<rparr>,
       \<lparr>connected = True, users = [apply_update body_CD user_A, user_K]\<rparr>)"
    by (simp add: put_users_id_def updateOne_def cast_filter_def matches_def schema_paths_def
        UserSchema_def findById_def key two_users_def has_id_def doc_json_def)
       (simp add: apply_update_def UserSchema_def body_CD_def user_A_def user_K_def)
  show ?thesis
    using loose strict by (simp add: updated)
qed




text \<open>
  C8, as stated: for every id that identifies no stored record, \<open>GET /users/:id\<close> and
  \<open>DELETE /users/:id\<close> answer 200 with a null body. It does not hold: \<open>abc\<close> identifies no
  stored record, and on a connected store both requests end in the cast error of the
  id, with no reply.
\<close>

theorem users_id_abc_counterexample:
  "\<not> identifies ''abc'' two_users \<and>
   get_users_id ''abc'' two_users = (Inl CastError, two_users) \<and>
   delete_users_id ''abc'' two_users = (Inl CastError, two_users)"
  by (simp add: identifies_def get_users_id_def delete_users_id_def findById_def
      findByIdAndDelete_def castObjectId_def)

text \<open>
  C8, amended: on a connected store, for every id that reads as an identity key (24
  hexadecimal digits) and identifies no stored record, \<open>GET /users/:id\<close> and
  \<open>DELETE /users/:id\<close> both answer 200 with the body \<open>null\<close>, and the store is unchanged.
\<close>

theorem absent_record_200_null:
  assumes "connected st" and "castObjectId ident = Some k" and "\<not> identifies ident st"
  shows "get_users_id ident st = (Inr \<lparr>status = 200, json = Null\<rparr>, st) \<and>
         delete_users_id ident st = (Inr \<lparr>status = 200, json = Null\<rparr>, st)"
proof -
  have absent: "\<not> list_ex (has_id k) (users st)"
    using assms(2,3) by (simp add: identifies_def)
  show ?thesis
    using assms(1,2)
    by (simp add: get_users_id_def delete_users_id_def findById_def findByIdAndDelete_def
        doc_json_def no_match_find [OF absent] no_match_delete_first [OF absent])
qed

theorem absent_record_200_null_witness:
  "connected two_users \<and>
   castObjectId ''65F000000000000000000009'' = Some ''65f000000000000000000009'' \<and>
   \<not> identifies ''65F000000000000000000009'' two_users \<and>
   get_users_id ''65F000000000000000000009'' two_users =
     (Inr \<lparr>status = 200, json = Null\<rparr>, two_users) \<and>
   delete_users_id ''65F000000000000000000009'' two_users =
     (Inr \<lparr>status = 200, json = Null\<rparr>, two_users)"
proof -
  have conn: "connected two_users"
    by (simp add: two_users_def)
  have key: "castObjectId ''65F000000000000000000009'' = Some ''65f000000000000000000009''"
    by (simp add: castObjectId_def hex_digit_def lower_hex_def)
  have absent: "\<not> identifies ''65F000000000000000000009'' two_users"
    by (simp add: identifies_def key two_users_def has_id_def user_A_def user_K_def)
  show ?thesis
    using absent_record_200_null [OF conn key absent] conn key absent by simp
qed

end
